theory Spec2Isabelle
  imports Complex_Main "HOL-Library.AList" "HOL-Library.Char_ord" "HOL-Library.List_Lexorder"
    "HOL-Library.Multiset"
begin

section \<open>Tables of the dashboard (app6.py)\<close>

text \<open>
  The script works on pandas data frames. A cell of a frame is a missing value (NaN or
  None), a number or a text. The numbers are the rationals and the two infinities:
  every int64 and every float64 value other than NaN is one of them, the two zeros of
  float64, which compare equal, being the one number 0. What the machine types do with
  the numbers is not fixed here: the reading of texts, the float64 division, the sum of
  a column and the sort of numpy are parameters of the functions that use them, and a
  theorem holds for each of them that meets the assumptions it states.
  A row is the association list of its columns in column order, and a frame is the list
  of its rows, each with the index label it keeps through every filter and sort.
\<close>

datatype number = NInf | Fin rat | PInf

datatype cell = NA | Num number | Str string

type_synonym row = "(string \<times> cell) list"

type_synonym frame = "(nat \<times> row) list"

text \<open>The four select boxes of the sidebar: the column chosen for each role.\<close>

record field_mapping =
  state_col :: string
  population_col :: string
  poverty_col :: string
  millionaire_col :: string

subsection \<open>Order of numbers and of cells\<close>

instantiation number :: linorder
begin

fun less_eq_number :: "number \<Rightarrow> number \<Rightarrow> bool" where
  "less_eq_number NInf y = True"
| "less_eq_number (Fin a) NInf = False"
| "less_eq_number (Fin a) (Fin b) = (a \<le> b)"
| "less_eq_number (Fin a) PInf = True"
| "less_eq_number PInf PInf = True"
| "less_eq_number PInf NInf = False"
| "less_eq_number PInf (Fin b) = False"

definition less_number :: "number \<Rightarrow> number \<Rightarrow> bool" where
  "less_number x y \<longleftrightarrow> x \<le> y \<and> \<not> y \<le> x"

instance
proof
  fix x y z :: number
  show "x < y \<longleftrightarrow> x \<le> y \<and> \<not> y \<le> x"
    by (simp add: less_number_def)
  show "x \<le> x"
    by (cases x) simp_all
  show "x \<le> y \<Longrightarrow> y \<le> z \<Longrightarrow> x \<le> z"
    by (cases x; cases y; cases z) simp_all
  show "x \<le> y \<Longrightarrow> y \<le> x \<Longrightarrow> x = y"
    by (cases x; cases y) simp_all
  show "x \<le> y \<or> y \<le> x"
    by (cases x; cases y) auto
qed

end

text \<open>
  Group keys are sorted with numbers before texts, numbers by value and texts by
  character code; a missing value never is a key.
\<close>

instantiation cell :: linorder
begin

fun less_eq_cell :: "cell \<Rightarrow> cell \<Rightarrow> bool" where
  "less_eq_cell NA y = True"
| "less_eq_cell (Num a) NA = False"
| "less_eq_cell (Num a) (Num b) = (a \<le> b)"
| "less_eq_cell (Num a) (Str t) = True"
| "less_eq_cell (Str s) (Str t) = (s \<le> t)"
| "less_eq_cell (Str s) NA = False"
| "less_eq_cell (Str s) (Num b) = False"

definition less_cell :: "cell \<Rightarrow> cell \<Rightarrow> bool" where
  "less_cell x y \<longleftrightarrow> x \<le> y \<and> \<not> y \<le> x"

instance
proof
  fix x y z :: cell
  show "x < y \<longleftrightarrow> x \<le> y \<and> \<not> y \<le> x"
    by (simp add: less_cell_def)
  show "x \<le> x"
    by (cases x) simp_all
  show "x \<le> y \<Longrightarrow> y \<le> z \<Longrightarrow> x \<le> z"
    by (cases x; cases y; cases z) simp_all
  show "x \<le> y \<Longrightarrow> y \<le> x \<Longrightarrow> x = y"
    by (cases x; cases y) simp_all
  show "x \<le> y \<or> y \<le> x"
    by (cases x; cases y) auto
qed

end

subsection \<open>Column access and assignment\<close>

text \<open>
  \<open>df[c]\<close> read at one row. Every column the script reads is one of the frame's own
  columns (the select boxes offer only those) or one it has assigned before, so the
  lookup of an absent column, here a missing value, does not occur in a run.
\<close>

definition get :: "row \<Rightarrow> string \<Rightarrow> cell" where
  "get r c = (case map_of r c of Some v \<Rightarrow> v | None \<Rightarrow> NA)"

text \<open>
  \<open>df[c] = f(df)\<close>: an existing column is overwritten in place, a new one is appended
  after the last column.
\<close>

definition assign :: "string \<Rightarrow> (row \<Rightarrow> cell) \<Rightarrow> frame \<Rightarrow> frame" where
  "assign c f df = map (\<lambda>(i, r). (i, AList.update c (f r) r)) df"

text \<open>\<open>df.dropna(subset=cols)\<close>: the rows with no missing value in \<open>cols\<close>.\<close>

definition dropna :: "string list \<Rightarrow> frame \<Rightarrow> frame" where
  "dropna cols df = filter (\<lambda>(i, r). list_all (\<lambda>c. get r c \<noteq> NA) cols) df"

text \<open>
  The loaded table: \<open>pd.read_csv\<close> and \<open>pd.read_excel\<close> label the rows
  \<open>0, 1, 2, ...\<close>.
\<close>

definition read_table :: "row list \<Rightarrow> frame" where
  "read_table rows = zip [0 ..< length rows] rows"

subsection \<open>Cleaning and derivation (lines 85 to 93)\<close>

text \<open>
  \<open>pd.to_numeric(..., errors="coerce")\<close> on one cell. How pandas reads a text as
  a number is the parameter \<open>P\<close>; a text that is no number becomes missing.
\<close>

fun to_numeric :: "(string \<Rightarrow> number option) \<Rightarrow> cell \<Rightarrow> cell" where
  "to_numeric P NA = NA"
| "to_numeric P (Num x) = Num x"
| "to_numeric P (Str s) = (case P s of Some x \<Rightarrow> Num x | None \<Rightarrow> NA)"

definition coerce :: "(string \<Rightarrow> number option) \<Rightarrow> field_mapping \<Rightarrow> frame \<Rightarrow> frame" where
  "coerce P m df =
     foldl (\<lambda>d c. assign c (\<lambda>r. to_numeric P (get r c)) d) df
       [population_col m, poverty_col m, millionaire_col m]"

text \<open>
  Division of two columns, cell by cell. pandas divides in float64: the quotient of two
  numbers is the parameter \<open>D\<close>, which may round and which gives NaN, the missing value
  of a numeric column, where float64 does. A missing operand gives a missing quotient.
  Both operands are columns that went through \<open>to_numeric\<close> or quotients, so neither
  holds a text.
\<close>

fun cell_div :: "(number \<Rightarrow> number \<Rightarrow> cell) \<Rightarrow> cell \<Rightarrow> cell \<Rightarrow> cell" where
  "cell_div D (Num x) (Num y) = D x y"
| "cell_div D NA y = NA"
| "cell_div D (Str s) y = NA"
| "cell_div D (Num x) NA = NA"
| "cell_div D (Num x) (Str t) = NA"

definition derive :: "(number \<Rightarrow> number \<Rightarrow> cell) \<Rightarrow> field_mapping \<Rightarrow> frame \<Rightarrow> frame" where
  "derive D m df =
     assign ''Poverty_Rate''
       (\<lambda>r. cell_div D (get r (poverty_col m)) (get r (population_col m)))
       (assign ''Millionaire_Density''
          (\<lambda>r. cell_div D (get r (millionaire_col m)) (get r (population_col m))) df)"

definition df_clean ::
  "(string \<Rightarrow> number option) \<Rightarrow> (number \<Rightarrow> number \<Rightarrow> cell) \<Rightarrow> field_mapping \<Rightarrow> frame \<Rightarrow> frame" where
  "df_clean P D m df =
     derive D m
       (dropna [state_col m, population_col m, poverty_col m, millionaire_col m]
          (coerce P m df))"

subsection \<open>State codes (lines 98 to 116)\<close>

definition STATE_ABBREV :: "(string \<times> string) list" where
  "STATE_ABBREV =
    [(''Alabama'', ''AL''), (''Alaska'', ''AK''), (''Arizona'', ''AZ''), (''Arkansas'', ''AR''),
     (''California'', ''CA''), (''Colorado'', ''CO''), (''Connecticut'', ''CT''), (''Delaware'', ''DE''),
     (''Florida'', ''FL''), (''Georgia'', ''GA''), (''Hawaii'', ''HI''), (''Idaho'', ''ID''),
     (''Illinois'', ''IL''), (''Indiana'', ''IN''), (''Iowa'', ''IA''), (''Kansas'', ''KS''),
     (''Kentucky'', ''KY''), (''Louisiana'', ''LA''), (''Maine'', ''ME''), (''Maryland'', ''MD''),
     (''Massachusetts'', ''MA''), (''Michigan'', ''MI''), (''Minnesota'', ''MN''), (''Mississippi'', ''MS''),
     (''Missouri'', ''MO''), (''Montana'', ''MT''), (''Nebraska'', ''NE''), (''Nevada'', ''NV''),
     (''New Hampshire'', ''NH''), (''New Jersey'', ''NJ''), (''New Mexico'', ''NM''), (''New York'', ''NY''),
     (''North Carolina'', ''NC''), (''North Dakota'', ''ND''), (''Ohio'', ''OH''), (''Oklahoma'', ''OK''),
     (''Oregon'', ''OR''), (''Pennsylvania'', ''PA''), (''Rhode Island'', ''RI''),
     (''South Carolina'', ''SC''), (''South Dakota'', ''SD''), (''Tennessee'', ''TN''), (''Texas'', ''TX''),
     (''Utah'', ''UT''), (''Vermont'', ''VT''), (''Virginia'', ''VA''), (''Washington'', ''WA''),
     (''West Virginia'', ''WV''), (''Wisconsin'', ''WI''), (''Wyoming'', ''WY''),
     (''District of Columbia'', ''DC''), (''D.C.'', ''DC'')]"

text \<open>\<open>Series.map(STATE_ABBREV)\<close> on one cell: a value that is no key becomes missing.\<close>

fun map_abbrev :: "cell \<Rightarrow> cell" where
  "map_abbrev (Str s) = (case map_of STATE_ABBREV s of Some a \<Rightarrow> Str a | None \<Rightarrow> NA)"
| "map_abbrev NA = NA"
| "map_abbrev (Num x) = NA"

definition with_state_code :: "field_mapping \<Rightarrow> frame \<Rightarrow> frame" where
  "with_state_code m df = assign ''state_code'' (\<lambda>r. map_abbrev (get r (state_col m))) df"

definition df_map :: "field_mapping \<Rightarrow> frame \<Rightarrow> frame" where
  "df_map m df = dropna [''state_code''] (with_state_code m df)"

text \<open>
  Line 115 adds the state code to \<open>df_clean\<close> itself, so this is the cleaned table that
  the three tabs read.
\<close>

definition cleaned_table ::
  "(string \<Rightarrow> number option) \<Rightarrow> (number \<Rightarrow> number \<Rightarrow> cell) \<Rightarrow> field_mapping \<Rightarrow> row list \<Rightarrow> frame" where
  "cleaned_table P D m rows = with_state_code m (df_clean P D m (read_table rows))"

subsection \<open>Comparison of selected states (lines 145 to 148)\<close>

text \<open>\<open>df[df[c].isin(vs)]\<close>.\<close>

definition isin_rows :: "string \<Rightarrow> cell list \<Rightarrow> frame \<Rightarrow> frame" where
  "isin_rows c vs df = filter (\<lambda>(i, r). get r c \<in> set vs) df"

text \<open>
  The sum of a column. pandas keeps a running state and feeds it the cells in row
  order; the state and what a cell does to it depend on the type of the column: the
  sum of an int64 column wraps around, the sum of a float64 column rounds and carries a
  compensation term, a missing value is skipped. A summation is its start state, its
  step and the value read off the state at the end.
\<close>

record 's summation =
  start :: 's
  step :: "'s \<Rightarrow> cell \<Rightarrow> 's"
  finish :: "'s \<Rightarrow> cell"


text \<open>
  \<open>df.groupby(key)[[c1, c2]].sum()\<close>: one entry per key with the two sums, the
  entries in ascending order of the key (\<open>sort=True\<close> is the default), rows with a
  missing key left out (\<open>dropna=True\<close> is the default). There is one running state
  per key and column; each row steps the two states of its key, and a key seen for the
  first time gets its entry at its place in the order. \<open>S\<close> is the summation of the
  first column and \<open>T\<close> that of the second.
\<close>

fun group_add ::
  "'s summation \<Rightarrow> 't summation \<Rightarrow> cell \<Rightarrow> cell \<Rightarrow> cell \<Rightarrow> (cell \<times> 's \<times> 't) list \<Rightarrow> (cell \<times> 's \<times> 't) list" where
  "group_add S T k p q [] = [(k, step S (start S) p, step T (start T) q)]"
| "group_add S T k p q ((k', a, b) # gs) =
     (if k = k' then (k', step S a p, step T b q) # gs
      else if k < k' then (k, step S (start S) p, step T (start T) q) # (k', a, b) # gs
      else (k', a, b) # group_add S T k p q gs)"

definition group_states ::
  "'s summation \<Rightarrow> 't summation \<Rightarrow> (cell \<times> cell \<times> cell) list \<Rightarrow> (cell \<times> 's \<times> 't) list" where
  "group_states S T ts = foldl (\<lambda>gs (k, p, q). group_add S T k p q gs) [] ts"

type_synonym groups = "(cell \<times> cell \<times> cell) list"

definition group_sums ::
  "'s summation \<Rightarrow> 't summation \<Rightarrow> (cell \<times> cell \<times> cell) list \<Rightarrow> groups" where
  "group_sums S T ts = map (\<lambda>(k, a, b). (k, finish S a, finish T b)) (group_states S T ts)"

definition groupby_sum ::
  "'s summation \<Rightarrow> 't summation \<Rightarrow> string \<Rightarrow> string \<Rightarrow> string \<Rightarrow> frame \<Rightarrow> groups" where
  "groupby_sum S T key c1 c2 df =
     group_sums S T (map (\<lambda>(i, r). (get r key, get r c1, get r c2))
       (filter (\<lambda>(i, r). get r key \<noteq> NA) df))"

definition grouped ::
  "'s summation \<Rightarrow> 't summation \<Rightarrow> field_mapping \<Rightarrow> cell list \<Rightarrow> frame \<Rightarrow> groups" where
  "grouped S T m selected_states df =
     groupby_sum S T (state_col m) (poverty_col m) (millionaire_col m)
       (isin_rows (state_col m) selected_states df)"

subsection \<open>Ranking (lines 222 to 224 and 257 to 258)\<close>

text \<open>\<open>df[[c1, c2]]\<close>: the listed columns only.\<close>

definition select :: "string list \<Rightarrow> frame \<Rightarrow> frame" where
  "select cols df = map (\<lambda>(i, r). (i, map (\<lambda>c. (c, get r c)) cols)) df"

text \<open>\<open>df.dropna()\<close>: the rows with no missing value at all.\<close>

definition dropna_any :: "frame \<Rightarrow> frame" where
  "dropna_any df = filter (\<lambda>(i, r). list_all (\<lambda>(c, v). v \<noteq> NA) r) df"

text \<open>
  \<open>df.drop_duplicates()\<close>: of the rows with the same values in every column the
  first one stays; the index label does not count.
\<close>

fun drop_duplicates :: "frame \<Rightarrow> frame" where
  "drop_duplicates [] = []"
| "drop_duplicates ((i, r) # df) = (i, r) # filter (\<lambda>(j, s). s \<noteq> r) (drop_duplicates df)"

text \<open>
  \<open>df.sort_values(c, ascending=False)\<close> with the default \<open>kind='quicksort'\<close>.
  pandas takes the rows that have a value in \<open>c\<close> in reverse order, asks numpy for
  the positions that sort their values in ascending order (\<open>argsort\<close>), reverses these
  positions, and puts the rows with a missing value last. The sort of numpy is the
  parameter \<open>A\<close>. It is not stable: all that is known of it is that it returns the
  positions \<open>0, ..., n - 1\<close> in an order in which the values ascend. Where values are
  equal, the order is the choice of \<open>A\<close>.
\<close>

definition is_argsort :: "(cell list \<Rightarrow> nat list) \<Rightarrow> bool" where
  "is_argsort A \<longleftrightarrow>
     (\<forall>ks. NA \<notin> set ks \<longrightarrow>
        mset (A ks) = mset [0 ..< length ks] \<and> sorted (map (\<lambda>j. ks ! j) (A ks)))"

definition sort_values_desc :: "(cell list \<Rightarrow> nat list) \<Rightarrow> string \<Rightarrow> frame \<Rightarrow> frame" where
  "sort_values_desc A c df =
     (let non_nans = rev (filter (\<lambda>(i, r). get r c \<noteq> NA) df);
          indexer = rev (A (map (\<lambda>(i, r). get r c) non_nans))
      in map (\<lambda>j. non_nans ! j) indexer @ filter (\<lambda>(i, r). get r c = NA) df)"

definition head3 :: "frame \<Rightarrow> frame" where
  "head3 df = take 3 df"

definition tail3 :: "frame \<Rightarrow> frame" where
  "tail3 df = drop (length df - 3) df"

definition rate_df :: "(cell list \<Rightarrow> nat list) \<Rightarrow> field_mapping \<Rightarrow> frame \<Rightarrow> frame" where
  "rate_df A m df =
     sort_values_desc A ''Poverty_Rate''
       (drop_duplicates (dropna_any (select [state_col m, ''Poverty_Rate''] df)))"

subsection \<open>The map tab (lines 190 to 224)\<close>

text \<open>
  What the tab shows: the warning of line 191 with its text, or the frame of the map
  with the three highest and the three lowest densities.
\<close>

datatype 'a view = Warning string | Rendered 'a

definition tab2 ::
  "(cell list \<Rightarrow> nat list) \<Rightarrow> field_mapping \<Rightarrow> frame \<Rightarrow> (frame \<times> frame \<times> frame) view" where
  "tab2 A m dfm =
     (if dfm = []
      then Warning
        (''No valid state codes found for the map. Make sure your state column uses full state names '' @
         ''(e.g., 'California', 'Texas') that can be mapped to two-letter abbreviations.'')
      else (let dens_sorted = sort_values_desc A ''Millionaire_Density'' dfm in
            Rendered (dfm,
              select [state_col m, ''Millionaire_Density''] (head3 dens_sorted),
              select [state_col m, ''Millionaire_Density''] (tail3 dens_sorted))))"

subsection \<open>The steps of cleaning on one row\<close>

text \<open>
  The script works column by column; the proofs follow one row through the same steps.
  \<open>coerce_row\<close> is the loop of line 85 on one row, \<open>complete_row\<close> the test of line 89 and
  \<open>derive_row\<close> the two assignments of lines 92 and 93.
\<close>

definition coerce_row :: "(string \<Rightarrow> number option) \<Rightarrow> field_mapping \<Rightarrow> row \<Rightarrow> row" where
  "coerce_row P m r =
     foldl (\<lambda>r c. AList.update c (to_numeric P (get r c)) r) r
       [population_col m, poverty_col m, millionaire_col m]"

definition complete_row :: "field_mapping \<Rightarrow> row \<Rightarrow> bool" where
  "complete_row m r =
     list_all (\<lambda>c. get r c \<noteq> NA) [state_col m, population_col m, poverty_col m, millionaire_col m]"

definition derive_row :: "(number \<Rightarrow> number \<Rightarrow> cell) \<Rightarrow> field_mapping \<Rightarrow> row \<Rightarrow> row" where
  "derive_row D m r =
     (let r1 = AList.update ''Millionaire_Density''
                 (cell_div D (get r (millionaire_col m)) (get r (population_col m))) r
      in AList.update ''Poverty_Rate''
           (cell_div D (get r1 (poverty_col m)) (get r1 (population_col m))) r1)"

text \<open>
  A field mapping is fresh when none of the four chosen columns bears the name of a
  column the script adds itself while cleaning.
\<close>

definition fresh_mapping :: "field_mapping \<Rightarrow> bool" where
  "fresh_mapping m =
     list_all (\<lambda>c. c \<noteq> ''Millionaire_Density'' \<and> c \<noteq> ''Poverty_Rate'')
       [state_col m, population_col m, poverty_col m, millionaire_col m]"

subsection \<open>Sample inputs\<close>

text \<open>A reader of texts that takes the plain decimal numerals and nothing else.\<close>

definition read_digits :: "string \<Rightarrow> number option" where
  "read_digits s =
     (if s \<noteq> [] \<and> list_all (\<lambda>c. CHR ''0'' \<le> c \<and> c \<le> CHR ''9'') s
      then Some (Fin (of_nat (foldl (\<lambda>n c. 10 * n + (of_char c - 48)) 0 s)))
      else None)"

text \<open>
  A division for the examples: the quotient without rounding and, for the divisor 0,
  what float64 gives for the divisor \<open>+0.0\<close>. The examples divide by 0 or have a
  quotient that float64 holds exactly, so that float64 gives the same.
\<close>

fun exact_div :: "number \<Rightarrow> number \<Rightarrow> cell" where
  "exact_div (Fin a) (Fin b) =
     (if b \<noteq> 0 then Num (Fin (a / b))
      else if 0 < a then Num PInf
      else if a < 0 then Num NInf
      else NA)"
| "exact_div (Fin a) PInf = Num (Fin 0)"
| "exact_div (Fin a) NInf = Num (Fin 0)"
| "exact_div PInf (Fin b) = (if 0 \<le> b then Num PInf else Num NInf)"
| "exact_div NInf (Fin b) = (if 0 \<le> b then Num NInf else Num PInf)"
| "exact_div PInf PInf = NA"
| "exact_div PInf NInf = NA"
| "exact_div NInf PInf = NA"
| "exact_div NInf NInf = NA"

text \<open>A sort for the examples: the insertion sort, which keeps equal values in order.\<close>

definition stable_argsort :: "cell list \<Rightarrow> nat list" where
  "stable_argsort ks = map fst (sort_key snd (zip [0 ..< length ks] ks))"

text \<open>
  The sum of an int64 column of whole numbers: the state is the sum so far, and an
  addition that leaves the range of int64 wraps around.
\<close>

definition wrap64 :: "int \<Rightarrow> int" where
  "wrap64 n = (n + 2 ^ 63) mod 2 ^ 64 - 2 ^ 63"

definition int64_sum :: "int summation" where
  "int64_sum =
     \<lparr>start = 0,
      step = (\<lambda>s v. case v of Num (Fin q) \<Rightarrow> wrap64 (s + \<lfloor>q\<rfloor>) | _ \<Rightarrow> s),
      finish = (\<lambda>s. Num (Fin (of_int s)))\<rparr>"

definition default_mapping :: field_mapping where
  "default_mapping =
     \<lparr>state_col = ''State'', population_col = ''State Population'',
      poverty_col = ''Number in Poverty'', millionaire_col = ''Number of Millionaires''\<rparr>"

definition raw_row :: "cell \<Rightarrow> cell \<Rightarrow> cell \<Rightarrow> cell \<Rightarrow> row" where
  "raw_row s pop pov mil =
     [(''State'', s), (''State Population'', pop),
      (''Number in Poverty'', pov), (''Number of Millionaires'', mil)]"

definition num_row :: "string \<Rightarrow> rat \<Rightarrow> rat \<Rightarrow> rat \<Rightarrow> row" where
  "num_row s pop pov mil = raw_row (Str s) (Num (Fin pop)) (Num (Fin pov)) (Num (Fin mil))"

text \<open>
  The table of the scenario, with a state the dictionary does not know and a second row
  for Texas.
\<close>

definition scenario_rows :: "row list" where
  "scenario_rows =
     [num_row ''Texas'' 1024 256 128, num_row ''Ohio'' 512 128 4, num_row ''Atlantis'' 8 1 1,
      num_row ''Texas'' 2048 512 256]"

definition scenario_clean :: frame where
  "scenario_clean = df_clean read_digits exact_div default_mapping (read_table scenario_rows)"

section \<open>Cleaning\<close>

text \<open>
  Cleaning seen row by row: a row stays if it is complete after coercion, and it stays
  under its index label.
\<close>

lemma get_update: "get (AList.update c v r) c' = (if c' = c then v else get r c')"
  by (simp add: get_def update_conv')

lemma to_numeric_idem: "to_numeric P (to_numeric P v) = to_numeric P v"
  by (cases v) (auto split: option.splits)

lemma get_coerce_row:
  "get (coerce_row P m r) c =
     (if c \<in> {population_col m, poverty_col m, millionaire_col m}
      then to_numeric P (get r c) else get r c)"
  by (simp add: coerce_row_def get_update to_numeric_idem)

lemma get_coerce_row_numeric:
  "get (coerce_row P m r) (population_col m) = to_numeric P (get r (population_col m))"
  "get (coerce_row P m r) (poverty_col m) = to_numeric P (get r (poverty_col m))"
  "get (coerce_row P m r) (millionaire_col m) = to_numeric P (get r (millionaire_col m))"
  by (simp_all add: get_coerce_row)

lemma coerce_rows: "coerce P m df = map (\<lambda>(i, r). (i, coerce_row P m r)) df"
  by (simp add: coerce_def coerce_row_def assign_def case_prod_unfold)

lemma dropna_map:
  "dropna cols (map (\<lambda>(i, r). (i, g r)) df) =
     map (\<lambda>(i, r). (i, g r)) (filter (\<lambda>(i, r). list_all (\<lambda>c. get (g r) c \<noteq> NA) cols) df)"
  by (simp add: dropna_def filter_map comp_def case_prod_unfold)

lemma derive_rows: "derive D m df = map (\<lambda>(i, r). (i, derive_row D m r)) df"
  by (simp add: derive_def derive_row_def assign_def case_prod_unfold Let_def)

lemma df_clean_rows:
  "df_clean P D m df =
     map (\<lambda>(i, r). (i, derive_row D m (coerce_row P m r)))
       (filter (\<lambda>(i, r). complete_row m (coerce_row P m r)) df)"
  by (simp only: df_clean_def coerce_rows dropna_map derive_rows)
     (simp add: complete_row_def case_prod_unfold comp_def)

lemma distinct_read_table: "distinct (map fst (read_table rows))"
  by (simp add: read_table_def)

lemma index_unique: "distinct (map fst df) \<Longrightarrow> (i, r) \<in> set df \<Longrightarrow> (i, r') \<in> set df \<Longrightarrow> r = r'"
  by (meson eq_key_imp_eq_value)

lemma index_in_df_clean:
  assumes "distinct (map fst df)" "(i, r) \<in> set df"
  shows "i \<in> fst ` set (df_clean P D m df) \<longleftrightarrow> complete_row m (coerce_row P m r)"
proof
  assume "i \<in> fst ` set (df_clean P D m df)"
  then obtain r' where r': "(i, r') \<in> set df" "complete_row m (coerce_row P m r')"
    by (auto simp: df_clean_rows)
  from index_unique [OF assms(1) assms(2) r'(1)] r'(2)
  show "complete_row m (coerce_row P m r)"
    by simp
next
  assume "complete_row m (coerce_row P m r)"
  with assms(2) show "i \<in> fst ` set (df_clean P D m df)"
    by (force simp: df_clean_rows)
qed

lemma in_df_clean:
  assumes "(i, r) \<in> set df" "complete_row m (coerce_row P m r)"
  shows "(i, derive_row D m (coerce_row P m r)) \<in> set (df_clean P D m df)"
  using assms by (force simp: df_clean_rows)

lemma df_clean_row:
  assumes "distinct (map fst df)" "(i, r) \<in> set df" "(i, r') \<in> set (df_clean P D m df)"
  shows "r' = derive_row D m (coerce_row P m r) \<and> complete_row m (coerce_row P m r)"
proof -
  from assms(3) obtain r0 where r0: "(i, r0) \<in> set df" "complete_row m (coerce_row P m r0)"
    "r' = derive_row D m (coerce_row P m r0)"
    by (auto simp: df_clean_rows)
  from index_unique [OF assms(1) assms(2) r0(1)] r0(2,3) show ?thesis
    by simp
qed

lemma complete_coerce_row:
  "complete_row m (coerce_row P m r) \<longleftrightarrow>
     get r (state_col m) \<noteq> NA \<and> to_numeric P (get r (population_col m)) \<noteq> NA \<and>
     to_numeric P (get r (poverty_col m)) \<noteq> NA \<and> to_numeric P (get r (millionaire_col m)) \<noteq> NA"
  by (cases "get r (state_col m)") (auto simp: complete_row_def get_coerce_row)

text \<open>
  C6. A row of the uploaded table in which the state cell is missing, or in which the
  population, poverty or millionaire cell is missing or is no number for
  \<open>to_numeric\<close>, is not in the cleaned table: its index label is not among the labels
  of \<open>df_clean\<close>. \<open>df_clean\<close> is a total function of the table, so a cell that is no
  number costs its row and nothing else.
\<close>

theorem incomplete_row_dropped:
  assumes "(i, r) \<in> set (read_table rows)"
    and "get r (state_col m) = NA \<or> to_numeric P (get r (population_col m)) = NA \<or>
         to_numeric P (get r (poverty_col m)) = NA \<or> to_numeric P (get r (millionaire_col m)) = NA"
  shows "i \<notin> fst ` set (df_clean P D m (read_table rows))"
  using assms index_in_df_clean [OF distinct_read_table assms(1), of P D m]
  by (auto simp: complete_coerce_row)

text \<open>A row with the population \<open>n/a\<close> is dropped.\<close>

theorem incomplete_row_dropped_witness:
  "(0, raw_row (Str ''Texas'') (Str ''n/a'') (Num (Fin 150)) (Num (Fin 20)))
     \<in> set (read_table [raw_row (Str ''Texas'') (Str ''n/a'') (Num (Fin 150)) (Num (Fin 20))]) \<and>
   to_numeric read_digits
     (get (raw_row (Str ''Texas'') (Str ''n/a'') (Num (Fin 150)) (Num (Fin 20)))
        (population_col default_mapping)) = NA \<and>
   0 \<notin> fst ` set (df_clean read_digits exact_div default_mapping
     (read_table [raw_row (Str ''Texas'') (Str ''n/a'') (Num (Fin 150)) (Num (Fin 20))]))"
proof -
  let ?r = "raw_row (Str ''Texas'') (Str ''n/a'') (Num (Fin 150)) (Num (Fin 20))"
  have a: "(0, ?r) \<in> set (read_table [?r])"
    by (simp add: read_table_def)
  have b: "to_numeric read_digits (get ?r (population_col default_mapping)) = NA"
    by (simp add: raw_row_def get_def default_mapping_def read_digits_def)
  from b have c: "get ?r (state_col default_mapping) = NA \<or>
      to_numeric read_digits (get ?r (population_col default_mapping)) = NA \<or>
      to_numeric read_digits (get ?r (poverty_col default_mapping)) = NA \<or>
      to_numeric read_digits (get ?r (millionaire_col default_mapping)) = NA"
    by simp
  show ?thesis
    by (rule conjI [OF a conjI [OF b incomplete_row_dropped [OF a c]]])
qed

subsection \<open>Cleaning twice\<close>

lemma get_in_keys: "c \<in> fst ` set r \<Longrightarrow> map_of r c = Some (get r c)"
  by (cases "map_of r c") (auto simp: get_def map_of_eq_None_iff)

lemma update_get_triv: "c \<in> fst ` set r \<Longrightarrow> v = get r c \<Longrightarrow> AList.update c v r = r"
  by (simp add: update_triv get_in_keys)

lemma keys_coerce_row:
  "fst ` set (coerce_row P m r) =
     {population_col m, poverty_col m, millionaire_col m} \<union> fst ` set r"
  by (auto simp: coerce_row_def dom_update)

lemma keys_derive_row:
  "fst ` set (derive_row D m r) = {''Millionaire_Density'', ''Poverty_Rate''} \<union> fst ` set r"
  by (auto simp: derive_row_def Let_def dom_update)

lemma get_derive_row:
  "c \<noteq> ''Millionaire_Density'' \<Longrightarrow> c \<noteq> ''Poverty_Rate'' \<Longrightarrow> get (derive_row D m r) c = get r c"
  by (simp add: derive_row_def Let_def get_update)

lemma coerce_row_fixed:
  assumes "\<And>c. c \<in> {population_col m, poverty_col m, millionaire_col m} \<Longrightarrow>
             c \<in> fst ` set r \<and> to_numeric P (get r c) = get r c"
  shows "coerce_row P m r = r"
  using assms by (simp add: coerce_row_def update_get_triv)

lemma derive_row_idem:
  assumes "population_col m \<noteq> ''Millionaire_Density''" "population_col m \<noteq> ''Poverty_Rate''"
    "poverty_col m \<noteq> ''Millionaire_Density''" "poverty_col m \<noteq> ''Poverty_Rate''"
    "millionaire_col m \<noteq> ''Millionaire_Density''" "millionaire_col m \<noteq> ''Poverty_Rate''"
  shows "derive_row D m (derive_row D m r) = derive_row D m r"
proof -
  let ?d = "cell_div D (get r (millionaire_col m)) (get r (population_col m))"
  let ?p = "cell_div D (get r (poverty_col m)) (get r (population_col m))"
  let ?r1 = "AList.update ''Millionaire_Density'' ?d r"
  let ?r2 = "AList.update ''Poverty_Rate'' ?p ?r1"
  have r2: "derive_row D m r = ?r2"
    using assms by (simp add: derive_row_def Let_def get_update)
  have md: "AList.update ''Millionaire_Density'' ?d ?r2 = ?r2"
    by (rule update_triv) (simp add: update_conv')
  have pr: "AList.update ''Poverty_Rate'' ?p ?r2 = ?r2"
    by (rule update_triv) (simp add: update_conv')
  have "derive_row D m ?r2 = ?r2"
    using assms by (simp add: derive_row_def [of D m ?r2] Let_def get_update md pr)
  then show ?thesis by (simp add: r2)
qed

lemma fresh_mappingD:
  assumes "fresh_mapping m"
  shows "state_col m \<noteq> ''Millionaire_Density''" "state_col m \<noteq> ''Poverty_Rate''"
    "population_col m \<noteq> ''Millionaire_Density''" "population_col m \<noteq> ''Poverty_Rate''"
    "poverty_col m \<noteq> ''Millionaire_Density''" "poverty_col m \<noteq> ''Poverty_Rate''"
    "millionaire_col m \<noteq> ''Millionaire_Density''" "millionaire_col m \<noteq> ''Poverty_Rate''"
  using assms by (simp_all add: fresh_mapping_def)

lemma clean_row_fixed:
  assumes f: "fresh_mapping m" and c: "complete_row m (coerce_row P m r)"
  shows "complete_row m (coerce_row P m (derive_row D m (coerce_row P m r)))"
    and "derive_row D m (coerce_row P m (derive_row D m (coerce_row P m r))) = derive_row D m (coerce_row P m r)"
proof -
  let ?r1 = "coerce_row P m r"
  let ?r2 = "derive_row D m ?r1"
  note d = fresh_mappingD [OF f]
  have same: "get ?r2 c = get ?r1 c"
    if "c \<in> {state_col m, population_col m, poverty_col m, millionaire_col m}" for c
    using that d by (auto simp: get_derive_row)
  have "coerce_row P m ?r2 = ?r2"
  proof (rule coerce_row_fixed)
    fix c assume c: "c \<in> {population_col m, poverty_col m, millionaire_col m}"
    then have "c \<in> fst ` set ?r2"
      by (auto simp: keys_derive_row keys_coerce_row)
    moreover have "get ?r2 c = to_numeric P (get r c)"
      using c same [of c] by (auto simp: get_coerce_row)
    ultimately show "c \<in> fst ` set ?r2 \<and> to_numeric P (get ?r2 c) = get ?r2 c"
      by (simp add: to_numeric_idem)
  qed
  moreover have "complete_row m ?r2"
    using c same by (simp add: complete_row_def)
  moreover have "derive_row D m ?r2 = ?r2"
    using d by (intro derive_row_idem)
  ultimately show "complete_row m (coerce_row P m ?r2)"
    and "derive_row D m (coerce_row P m ?r2) = ?r2"
    by simp_all
qed

lemma fresh_default_mapping: "fresh_mapping default_mapping"
  by (simp add: fresh_mapping_def default_mapping_def)

lemma twice_example_first:
  "df_clean read_digits exact_div (default_mapping\<lparr>poverty_col := ''Poverty_Rate''\<rparr>)
     (read_table [[(''State'', Str ''Texas''), (''State Population'', Num (Fin 4)),
        (''Poverty_Rate'', Num (Fin 2)), (''Number of Millionaires'', Num (Fin 6))]]) =
   [(0, [(''State'', Str ''Texas''), (''State Population'', Num (Fin 4)),
        (''Poverty_Rate'', Num (Fin (1 / 2))), (''Number of Millionaires'', Num (Fin 6)),
        (''Millionaire_Density'', Num (Fin (3 / 2)))])]"
  by code_simp

lemma twice_example_second:
  "df_clean read_digits exact_div (default_mapping\<lparr>poverty_col := ''Poverty_Rate''\<rparr>)
     [(0, [(''State'', Str ''Texas''), (''State Population'', Num (Fin 4)),
        (''Poverty_Rate'', Num (Fin (1 / 2))), (''Number of Millionaires'', Num (Fin 6)),
        (''Millionaire_Density'', Num (Fin (3 / 2)))])] =
   [(0, [(''State'', Str ''Texas''), (''State Population'', Num (Fin 4)),
        (''Poverty_Rate'', Num (Fin (1 / 8))), (''Number of Millionaires'', Num (Fin 6)),
        (''Millionaire_Density'', Num (Fin (3 / 2)))])]"
  by code_simp

text \<open>
  C7 as stated fails. The uploaded table has a column named \<open>Poverty_Rate\<close> and the
  sidebar maps the poverty count to it. Cleaning overwrites that column with the rate
  1/2; cleaning the result divides once more and gives 1/8.
\<close>

theorem df_clean_twice_differs:
  "df_clean read_digits exact_div (default_mapping\<lparr>poverty_col := ''Poverty_Rate''\<rparr>)
     (df_clean read_digits exact_div (default_mapping\<lparr>poverty_col := ''Poverty_Rate''\<rparr>)
        (read_table [[(''State'', Str ''Texas''), (''State Population'', Num (Fin 4)),
           (''Poverty_Rate'', Num (Fin 2)), (''Number of Millionaires'', Num (Fin 6))]])) \<noteq>
   df_clean read_digits exact_div (default_mapping\<lparr>poverty_col := ''Poverty_Rate''\<rparr>)
     (read_table [[(''State'', Str ''Texas''), (''State Population'', Num (Fin 4)),
        (''Poverty_Rate'', Num (Fin 2)), (''Number of Millionaires'', Num (Fin 6))]])"
  by (simp only: twice_example_first twice_example_second) simp

text \<open>
  C7, amended. When none of the four mapped columns is named \<open>Millionaire_Density\<close> or
  \<open>Poverty_Rate\<close>, cleaning is idempotent: applied to its own output (coercion, row
  dropping and the two derived columns) it returns that output unchanged, for every
  frame, every reader of numbers and every division.
\<close>

theorem df_clean_idempotent:
  assumes "fresh_mapping m"
  shows "df_clean P D m (df_clean P D m df) = df_clean P D m df"
proof -
  let ?g = "\<lambda>r. derive_row D m (coerce_row P m r)"
  let ?k = "\<lambda>r. complete_row m (coerce_row P m r)"
  let ?kept = "filter (\<lambda>(i, r). ?k r) df"
  have "df_clean P D m (df_clean P D m df) =
      map (\<lambda>(i, r). (i, ?g (?g r))) (filter (\<lambda>(i, r). ?k (?g r)) ?kept)"
    by (simp add: df_clean_rows [of P D m] filter_map comp_def case_prod_unfold)
  also have "filter (\<lambda>(i, r). ?k (?g r)) ?kept = ?kept"
    using clean_row_fixed(1) [OF assms] by (auto intro!: filter_cong)
  also have "map (\<lambda>(i, r). (i, ?g (?g r))) ?kept = map (\<lambda>(i, r). (i, ?g r)) ?kept"
    using clean_row_fixed [OF assms] by (auto intro!: map_cong)
  also have "\<dots> = df_clean P D m df"
    by (simp add: df_clean_rows)
  finally show ?thesis .
qed

text \<open>The default mapping is fresh, and a table with one unusable row is cleaned twice.\<close>

theorem df_clean_idempotent_witness:
  "fresh_mapping default_mapping \<and>
   df_clean read_digits exact_div default_mapping
     (df_clean read_digits exact_div default_mapping
        (read_table [num_row ''Texas'' 1024 256 128, num_row ''Ohio'' 512 128 4,
           raw_row (Str ''Utah'') (Str ''n/a'') (Num (Fin 1)) (Num (Fin 1))])) =
   df_clean read_digits exact_div default_mapping
     (read_table [num_row ''Texas'' 1024 256 128, num_row ''Ohio'' 512 128 4,
        raw_row (Str ''Utah'') (Str ''n/a'') (Num (Fin 1)) (Num (Fin 1))])"
  by (rule conjI [OF fresh_default_mapping df_clean_idempotent [OF fresh_default_mapping]])

section \<open>The table of state codes\<close>

lemma length_STATE_ABBREV: "length STATE_ABBREV = 52"
  by (simp add: STATE_ABBREV_def)

lemma distinct_STATE_ABBREV: "distinct (map fst STATE_ABBREV)"
  by (simp add: STATE_ABBREV_def)

lemma card_STATE_ABBREV: "card (dom (map_of STATE_ABBREV)) = 52"
  using distinct_card [OF distinct_STATE_ABBREV] length_STATE_ABBREV
  by (simp add: dom_map_of_conv_image_fst flip: set_map)

text \<open>C3 as stated fails: the dictionary does not have 51 keys.\<close>

theorem STATE_ABBREV_not_51_entries: "card (dom (map_of STATE_ABBREV)) \<noteq> 51"
  by (simp add: card_STATE_ABBREV)

text \<open>
  C3, amended. \<open>STATE_ABBREV\<close> has exactly 52 keys: 50 keys with a code other than DC,
  which are the names of the states, and the two keys \<open>District of Columbia\<close> and
  \<open>D.C.\<close>, both with the code DC.
\<close>

theorem STATE_ABBREV_52_entries:
  "card (dom (map_of STATE_ABBREV)) = 52 \<and>
   length (filter (\<lambda>(k, v). v \<noteq> ''DC'') STATE_ABBREV) = 50 \<and>
   map_of STATE_ABBREV ''District of Columbia'' = Some ''DC'' \<and>
   map_of STATE_ABBREV ''D.C.'' = Some ''DC''"
  by (simp add: card_STATE_ABBREV) (simp add: STATE_ABBREV_def)

subsection \<open>The join\<close>

lemma with_state_code_rows:
  "with_state_code m df =
     map (\<lambda>(i, r). (i, AList.update ''state_code'' (map_abbrev (get r (state_col m))) r)) df"
  by (simp add: with_state_code_def assign_def)

lemma df_map_rows:
  "df_map m df =
     map (\<lambda>(i, r). (i, AList.update ''state_code'' (map_abbrev (get r (state_col m))) r))
       (filter (\<lambda>(i, r). map_abbrev (get r (state_col m)) \<noteq> NA) df)"
  by (simp add: df_map_def with_state_code_rows dropna_def filter_map comp_def case_prod_unfold
      get_update)

lemma map_abbrev_eq_NA:
  "map_abbrev v = NA \<longleftrightarrow> (\<forall>s. v = Str s \<longrightarrow> map_of STATE_ABBREV s = None)"
  by (cases v) (auto split: option.splits)

text \<open>The join is exact: the key \<open>Texas\<close> is known, \<open>texas\<close> and \<open>TEXAS\<close> are not.\<close>

lemma join_case_sensitive:
  "map_abbrev (Str ''Texas'') = Str ''TX'' \<and> map_abbrev (Str ''texas'') = NA \<and>
   map_abbrev (Str ''TEXAS'') = NA"
  by code_simp

text \<open>
  C4. Take a row of the cleaned table. If its state cell is a text that is, character
  by character, a key of \<open>STATE_ABBREV\<close>, the row is in the frame of the map with the
  code of that key in \<open>state_code\<close>. For any other state cell the row is not in the
  frame of the map, and it still is in the cleaned table, with a missing state code.
\<close>

theorem state_code_join:
  assumes "distinct (map fst df)" "(i, r) \<in> set df"
  shows "(\<forall>s a. get r (state_col m) = Str s \<and> map_of STATE_ABBREV s = Some a \<longrightarrow>
            (i, AList.update ''state_code'' (Str a) r) \<in> set (df_map m df) \<and>
            get (AList.update ''state_code'' (Str a) r) ''state_code'' = Str a) \<and>
         ((\<forall>s. get r (state_col m) = Str s \<longrightarrow> map_of STATE_ABBREV s = None) \<longrightarrow>
            i \<notin> fst ` set (df_map m df) \<and>
            (i, AList.update ''state_code'' NA r) \<in> set (with_state_code m df))"
proof (intro conjI allI impI)
  fix s a
  assume h: "get r (state_col m) = Str s \<and> map_of STATE_ABBREV s = Some a"
  then have "map_abbrev (get r (state_col m)) = Str a"
    by simp
  with assms(2) show "(i, AList.update ''state_code'' (Str a) r) \<in> set (df_map m df)"
    by (force simp: df_map_rows)
  show "get (AList.update ''state_code'' (Str a) r) ''state_code'' = Str a"
    by (simp add: get_update)
next
  assume h: "\<forall>s. get r (state_col m) = Str s \<longrightarrow> map_of STATE_ABBREV s = None"
  then have na: "map_abbrev (get r (state_col m)) = NA"
    by (simp add: map_abbrev_eq_NA)
  show "i \<notin> fst ` set (df_map m df)"
  proof
    assume "i \<in> fst ` set (df_map m df)"
    then obtain r0 where r0: "(i, r0) \<in> set df" "map_abbrev (get r0 (state_col m)) \<noteq> NA"
      by (auto simp: df_map_rows)
    from index_unique [OF assms(1) assms(2) r0(1)] r0(2) na show False
      by simp
  qed
  from assms(2) na show "(i, AList.update ''state_code'' NA r) \<in> set (with_state_code m df)"
    by (force simp: with_state_code_rows)
qed

text \<open>Texas is in the frame of the map with the code TX; Atlantis is not.\<close>

theorem state_code_join_witness:
  "distinct (map fst scenario_clean) \<and>
   (0, derive_row exact_div default_mapping (num_row ''Texas'' 1024 256 128)) \<in> set scenario_clean \<and>
   (2, derive_row exact_div default_mapping (num_row ''Atlantis'' 8 1 1)) \<in> set scenario_clean \<and>
   get (derive_row exact_div default_mapping (num_row ''Texas'' 1024 256 128)) (state_col default_mapping) = Str ''Texas'' \<and>
   map_of STATE_ABBREV ''Texas'' = Some ''TX'' \<and>
   get (derive_row exact_div default_mapping (num_row ''Atlantis'' 8 1 1)) (state_col default_mapping) = Str ''Atlantis'' \<and>
   map_of STATE_ABBREV ''Atlantis'' = None \<and>
   (0, AList.update ''state_code'' (Str ''TX'') (derive_row exact_div default_mapping (num_row ''Texas'' 1024 256 128)))
      \<in> set (df_map default_mapping scenario_clean) \<and>
   2 \<notin> fst ` set (df_map default_mapping scenario_clean) \<and>
   (2, AList.update ''state_code'' NA (derive_row exact_div default_mapping (num_row ''Atlantis'' 8 1 1)))
      \<in> set (with_state_code default_mapping scenario_clean)"
proof -
  let ?t = "derive_row exact_div default_mapping (num_row ''Texas'' 1024 256 128)"
  let ?a = "derive_row exact_div default_mapping (num_row ''Atlantis'' 8 1 1)"
  have d: "distinct (map fst scenario_clean)"
    by code_simp
  have t: "(0, ?t) \<in> set scenario_clean" and a: "(2, ?a) \<in> set scenario_clean"
    by code_simp+
  have ts: "get ?t (state_col default_mapping) = Str ''Texas''"
    and tx: "map_of STATE_ABBREV ''Texas'' = Some ''TX''"
    and as: "get ?a (state_col default_mapping) = Str ''Atlantis''"
    and ax: "map_of STATE_ABBREV ''Atlantis'' = None"
    by code_simp+
  from state_code_join [OF d t, of default_mapping] ts tx
  have 1: "(0, AList.update ''state_code'' (Str ''TX'') ?t) \<in> set (df_map default_mapping scenario_clean)"
    by blast
  from as ax have "\<forall>s. get ?a (state_col default_mapping) = Str s \<longrightarrow> map_of STATE_ABBREV s = None"
    by simp
  with state_code_join [OF d a, of default_mapping]
  have 2: "2 \<notin> fst ` set (df_map default_mapping scenario_clean) \<and>
      (2, AList.update ''state_code'' NA ?a) \<in> set (with_state_code default_mapping scenario_clean)"
    by blast
  from d t a ts tx as ax 1 2 show ?thesis
    by (intro conjI) simp_all
qed

section \<open>The map tab\<close>

text \<open>
  C8. With an empty frame of the map, tab 2 shows the warning of line 191, whose text
  says that no valid state codes were found for the map, and renders nothing; with a
  frame that has a row it renders the map, and it renders the map in no other case.
\<close>

theorem map_tab_warning:
  "(dfm = [] \<longrightarrow>
      tab2 A m dfm =
        Warning (''No valid state codes found for the map. Make sure your state column uses full state names '' @
                 ''(e.g., 'California', 'Texas') that can be mapped to two-letter abbreviations.'') \<and>
      (\<forall>x. tab2 A m dfm \<noteq> Rendered x)) \<and>
   (dfm \<noteq> [] \<longrightarrow> (\<exists>x. tab2 A m dfm = Rendered x) \<and> (\<forall>w. tab2 A m dfm \<noteq> Warning w)) \<and>
   (\<forall>x. tab2 A m dfm = Rendered x \<longrightarrow> dfm \<noteq> [])"
  by (simp add: tab2_def Let_def)

text \<open>
  The empty frame gives the warning with its text, which begins with the words that no
  valid state codes were found; the frame of the scenario gives the map.
\<close>

theorem map_tab_warning_witness:
  "tab2 stable_argsort default_mapping [] =
     Warning (''No valid state codes found for the map. Make sure your state column uses full state names '' @
              ''(e.g., 'California', 'Texas') that can be mapped to two-letter abbreviations.'') \<and>
   take 26 (''No valid state codes found for the map. Make sure your state column uses full state names '' @
            ''(e.g., 'California', 'Texas') that can be mapped to two-letter abbreviations.'') =
     ''No valid state codes found'' \<and>
   df_map default_mapping scenario_clean \<noteq> [] \<and>
   (\<exists>x. tab2 stable_argsort default_mapping (df_map default_mapping scenario_clean) = Rendered x)"
proof -
  have n: "df_map default_mapping scenario_clean \<noteq> []"
    by code_simp
  from map_tab_warning [of "[]" stable_argsort default_mapping]
  have w: "tab2 stable_argsort default_mapping [] =
     Warning (''No valid state codes found for the map. Make sure your state column uses full state names '' @
              ''(e.g., 'California', 'Texas') that can be mapped to two-letter abbreviations.'')"
    by simp
  from map_tab_warning [of "df_map default_mapping scenario_clean" stable_argsort default_mapping] n
  have r: "\<exists>x. tab2 stable_argsort default_mapping (df_map default_mapping scenario_clean) = Rendered x"
    by blast
  have t: "take 26 (''No valid state codes found for the map. Make sure your state column uses full state names '' @
            ''(e.g., 'California', 'Texas') that can be mapped to two-letter abbreviations.'') =
     ''No valid state codes found''"
    by simp
  from w t n r show ?thesis
    by (intro conjI)
qed

section \<open>Ranking\<close>

lemma set_drop_duplicates_subset: "set (drop_duplicates df) \<subseteq> set df"
  by (induction df rule: drop_duplicates.induct) auto

lemma rows_drop_duplicates: "snd ` set (drop_duplicates df) = snd ` set df"
proof (induction df rule: drop_duplicates.induct)
  case 1
  show ?case by simp
next
  case (2 i r df)
  have "snd ` set (filter (\<lambda>(j, s). s \<noteq> r) (drop_duplicates df)) =
      snd ` set (drop_duplicates df) - {r}"
    by force
  with 2 show ?case by auto
qed

lemma distinct_drop_duplicates: "distinct (map snd (drop_duplicates df))"
proof (induction df rule: drop_duplicates.induct)
  case 1
  show ?case by simp
next
  case (2 i r df)
  have "map snd (filter (\<lambda>(j, s). s \<noteq> r) (drop_duplicates df)) =
      filter (\<lambda>s. s \<noteq> r) (map snd (drop_duplicates df))"
    by (simp add: filter_map comp_def case_prod_unfold)
  with 2 show ?case by (simp add: distinct_filter)
qed

text \<open>
  What is used of the sort of numpy: the positions it returns are the positions of the
  list, each once, and the values at them ascend. The sort of the examples is one such
  sort.
\<close>

lemma is_argsort_stable: "is_argsort stable_argsort"
proof -
  have "mset (stable_argsort ks) = mset [0 ..< length ks]" for ks
  proof -
    have "mset (map fst (sort_key snd (zip [0 ..< length ks] ks))) =
        image_mset fst (mset (zip [0 ..< length ks] ks))"
      by (simp only: mset_map mset_sort)
    also have "\<dots> = mset (map fst (zip [0 ..< length ks] ks))"
      by (simp only: mset_map)
    also have "map fst (zip [0 ..< length ks] ks) = [0 ..< length ks]"
      by simp
    finally show ?thesis
      by (simp only: stable_argsort_def)
  qed
  moreover have "sorted (map (\<lambda>j. ks ! j) (stable_argsort ks))" for ks :: "cell list"
  proof -
    let ?zs = "zip [0 ..< length ks] ks"
    have nth: "ks ! fst z = snd z" if "z \<in> set ?zs" for z
      using that by (auto simp: set_zip)
    have "map (\<lambda>j. ks ! j) (stable_argsort ks) = map (\<lambda>z. ks ! fst z) (sort_key snd ?zs)"
      by (simp add: stable_argsort_def comp_def)
    also have "\<dots> = map snd (sort_key snd ?zs)"
      using nth by (intro map_cong) auto
    finally show ?thesis
      by (simp add: sorted_sort_key)
  qed
  ultimately show ?thesis
    by (simp add: is_argsort_def)
qed

lemma argsort_mset:
  "is_argsort A \<Longrightarrow> NA \<notin> set ks \<Longrightarrow> mset (A ks) = mset [0 ..< length ks]"
  by (simp add: is_argsort_def)



lemma mset_take_argsort:
  assumes "is_argsort A" "NA \<notin> set (map f xs)"
  shows "mset (map (\<lambda>j. xs ! j) (A (map f xs))) = mset xs"
proof -
  have "mset (map (\<lambda>j. xs ! j) (A (map f xs))) = image_mset (\<lambda>j. xs ! j) (mset (A (map f xs)))"
    by simp
  also have "\<dots> = image_mset (\<lambda>j. xs ! j) (mset [0 ..< length xs])"
    using argsort_mset [OF assms] by simp
  also have "\<dots> = mset (map (\<lambda>j. xs ! j) [0 ..< length xs])"
    by simp
  also have "\<dots> = mset xs"
    by (simp only: map_nth)
  finally show ?thesis .
qed


lemma no_NA_keys: "NA \<notin> set (map (\<lambda>(i, r). get r c) (rev (filter (\<lambda>(i, r). get r c \<noteq> NA) df)))"
  by auto

lemma mset_split_NA:
  "mset (filter (\<lambda>(i, r). get r c \<noteq> NA) df) + mset (filter (\<lambda>(i, r). get r c = NA) df) = mset df"
  by (induction df) auto

lemma mset_sort_values_desc:
  assumes "is_argsort A"
  shows "mset (sort_values_desc A c df) = mset df"
proof -
  let ?nn = "rev (filter (\<lambda>(i, r). get r c \<noteq> NA) df)"
  have "mset (map (\<lambda>j. ?nn ! j) (rev (A (map (\<lambda>(i, r). get r c) ?nn)))) = mset ?nn"
    using mset_take_argsort [OF assms no_NA_keys, of c df] by (simp add: rev_map [symmetric])
  then show ?thesis
    using mset_split_NA [of c df] by (simp add: sort_values_desc_def Let_def)
qed

lemma set_sort_values_desc: "is_argsort A \<Longrightarrow> set (sort_values_desc A c df) = set df"
  by (metis mset_sort_values_desc set_mset_mset)


text \<open>The rows that reach the sort: the pairs of state and rate with both values present.\<close>

lemma in_rate_pairs:
  "(i, p) \<in> set (dropna_any (select [state_col m, ''Poverty_Rate''] df)) \<longleftrightarrow>
     (\<exists>r. (i, r) \<in> set df \<and> get r (state_col m) \<noteq> NA \<and> get r ''Poverty_Rate'' \<noteq> NA \<and>
        p = [(state_col m, get r (state_col m)), (''Poverty_Rate'', get r ''Poverty_Rate'')])"
  by (auto simp: dropna_any_def select_def)



lemma rows_rate_df:
  "is_argsort A \<Longrightarrow>
   snd ` set (rate_df A m df) = snd ` set (dropna_any (select [state_col m, ''Poverty_Rate''] df))"
  by (simp add: rate_df_def set_sort_values_desc rows_drop_duplicates)

lemma distinct_rate_df:
  assumes "is_argsort A"
  shows "distinct (map snd (rate_df A m df))"
proof -
  have "mset (map snd (rate_df A m df)) =
      mset (map snd (drop_duplicates (dropna_any (select [state_col m, ''Poverty_Rate''] df))))"
    unfolding rate_df_def by (simp only: mset_map mset_sort_values_desc [OF assms])
  then show ?thesis
    using distinct_drop_duplicates by (metis mset_eq_imp_distinct_iff)
qed

lemma index_rate_df:
  assumes "is_argsort A" "i \<in> fst ` set (rate_df A m df)"
  shows "\<exists>r. (i, r) \<in> set df \<and> get r (state_col m) \<noteq> NA \<and> get r ''Poverty_Rate'' \<noteq> NA"
proof -
  from assms(2) obtain p where "(i, p) \<in> set (rate_df A m df)"
    by auto
  then have "(i, p) \<in> set (dropna_any (select [state_col m, ''Poverty_Rate''] df))"
    using set_drop_duplicates_subset by (auto simp: rate_df_def set_sort_values_desc [OF assms(1)])
  then show ?thesis
    by (auto simp: in_rate_pairs)
qed

lemma rate_derive_row:
  assumes "population_col m \<noteq> ''Millionaire_Density''" "poverty_col m \<noteq> ''Millionaire_Density''"
  shows "get (derive_row D m r) ''Poverty_Rate'' =
     cell_div D (get r (poverty_col m)) (get r (population_col m))"
  using assms by (simp add: derive_row_def Let_def get_update)

subsection \<open>Rows with population zero\<close>

lemma rate_with_state_code:
  assumes "(i, r') \<in> set (with_state_code m df)"
  shows "\<exists>r. (i, r) \<in> set df \<and> get r' ''Poverty_Rate'' = get r ''Poverty_Rate''"
  using assms by (auto simp: with_state_code_rows get_update)

text \<open>
  C1 as stated fails: a row with population 0 and 5 people in poverty has the rate
  \<open>inf\<close>, which \<open>dropna\<close> does not count as missing, and is in the ranked table.
\<close>

theorem zero_population_row_ranked:
  "(0, num_row ''X'' 0 5 1) \<in> set (read_table [num_row ''X'' 0 5 1]) \<and>
   get (num_row ''X'' 0 5 1) (population_col default_mapping) = Num (Fin 0) \<and>
   rate_df stable_argsort default_mapping
     (cleaned_table read_digits exact_div default_mapping [num_row ''X'' 0 5 1]) =
     [(0, [(''State'', Str ''X''), (''Poverty_Rate'', Num PInf)])]"
  by code_simp

text \<open>
  C1, amended. Let neither the population nor the poverty column be the column
  \<open>Millionaire_Density\<close>. A row of the uploaded table whose population cell is 0 and
  whose poverty cell is 0 is not in the ranked table: its index label is not among the
  labels of \<open>rate_df\<close>, taken of the cleaned table as line 257 reads it. Used of float64
  is that 0 / 0 is NaN, and of the sort that it is a sort.
\<close>

theorem zero_over_zero_row_not_ranked:
  assumes "is_argsort A" "D (Fin 0) (Fin 0) = NA"
    and "population_col m \<noteq> ''Millionaire_Density''" "poverty_col m \<noteq> ''Millionaire_Density''"
    and "(i, r) \<in> set (read_table rows)"
    and "to_numeric P (get r (population_col m)) = Num (Fin 0)"
    and "to_numeric P (get r (poverty_col m)) = Num (Fin 0)"
  shows "i \<notin> fst ` set (rate_df A m (cleaned_table P D m rows))"
proof
  assume "i \<in> fst ` set (rate_df A m (cleaned_table P D m rows))"
  from index_rate_df [OF assms(1) this] obtain r' where
    r': "(i, r') \<in> set (cleaned_table P D m rows)" "get r' ''Poverty_Rate'' \<noteq> NA"
    by blast
  from rate_with_state_code [OF r'(1) [unfolded cleaned_table_def]] obtain r2 where
    r2: "(i, r2) \<in> set (df_clean P D m (read_table rows))"
      "get r' ''Poverty_Rate'' = get r2 ''Poverty_Rate''"
    by blast
  from df_clean_row [OF distinct_read_table assms(5) r2(1)]
  have "r2 = derive_row D m (coerce_row P m r)"
    by simp
  then have "get r2 ''Poverty_Rate'' = NA"
    using assms(2,3,4,6,7) by (simp add: rate_derive_row get_coerce_row_numeric)
  with r'(2) r2(2) show False
    by simp
qed

text \<open>
  A table with a row 0/0 and a row 5/0: the first is not ranked.
\<close>

theorem zero_over_zero_row_not_ranked_witness:
  "is_argsort stable_argsort \<and> exact_div (Fin 0) (Fin 0) = NA \<and>
   population_col default_mapping \<noteq> ''Millionaire_Density'' \<and>
   poverty_col default_mapping \<noteq> ''Millionaire_Density'' \<and>
   (0, num_row ''Y'' 0 0 0) \<in> set (read_table [num_row ''Y'' 0 0 0, num_row ''X'' 0 5 1]) \<and>
   to_numeric read_digits (get (num_row ''Y'' 0 0 0) (population_col default_mapping)) = Num (Fin 0) \<and>
   to_numeric read_digits (get (num_row ''Y'' 0 0 0) (poverty_col default_mapping)) = Num (Fin 0) \<and>
   0 \<notin> fst ` set (rate_df stable_argsort default_mapping
     (cleaned_table read_digits exact_div default_mapping [num_row ''Y'' 0 0 0, num_row ''X'' 0 5 1]))"
proof -
  have z: "exact_div (Fin 0) (Fin 0) = NA"
    by simp
  have a: "population_col default_mapping \<noteq> ''Millionaire_Density''"
    by (simp add: default_mapping_def)
  have b: "poverty_col default_mapping \<noteq> ''Millionaire_Density''"
    by (simp add: default_mapping_def)
  have c: "(0, num_row ''Y'' 0 0 0) \<in> set (read_table [num_row ''Y'' 0 0 0, num_row ''X'' 0 5 1])"
    by (simp add: read_table_def upt_rec)
  have d: "to_numeric read_digits (get (num_row ''Y'' 0 0 0) (population_col default_mapping)) = Num (Fin 0)"
    by code_simp
  have e: "to_numeric read_digits (get (num_row ''Y'' 0 0 0) (poverty_col default_mapping)) = Num (Fin 0)"
    by code_simp
  note f = zero_over_zero_row_not_ranked [where D = exact_div, OF is_argsort_stable z a b c d e]
  from is_argsort_stable z a b c d e f show ?thesis
    by (intro conjI)
qed

subsection \<open>Order of the ranked table\<close>






subsection \<open>Duplicates\<close>

text \<open>
  C10 as stated fails: of two rows for Texas with the rates NaN (0 / 0) and 1/4 only
  the second is in the ranked table; line 257 drops the row with the missing rate.
\<close>

theorem missing_rate_row_not_ranked:
  "map (\<lambda>(i, r). (i, get r ''State'', get r ''Poverty_Rate''))
     (cleaned_table read_digits exact_div default_mapping
        [num_row ''Texas'' 0 0 1, num_row ''Texas'' 100 25 25]) =
     [(0, Str ''Texas'', NA), (1, Str ''Texas'', Num (Fin (1 / 4)))] \<and>
   rate_df stable_argsort default_mapping
     (cleaned_table read_digits exact_div default_mapping
        [num_row ''Texas'' 0 0 1, num_row ''Texas'' 100 25 25]) =
     [(1, [(''State'', Str ''Texas''), (''Poverty_Rate'', Num (Fin (1 / 4)))])]"
  by code_simp

text \<open>
  C10, amended. Two rows of the cleaned table with the same state and different rates,
  both rates present, both stand in the ranked table, as two different entries; the
  ranked table holds no pair twice and loses no pair, so a row with a rate is left out
  only for a row that agrees with it on both the state and the rate.
\<close>

theorem same_state_two_rates:
  assumes "is_argsort A"
    and "(i, r) \<in> set df" "(j, r') \<in> set df"
    and "get r (state_col m) = get r' (state_col m)" "get r (state_col m) \<noteq> NA"
    and "get r ''Poverty_Rate'' \<noteq> NA" "get r' ''Poverty_Rate'' \<noteq> NA"
    and "get r ''Poverty_Rate'' \<noteq> get r' ''Poverty_Rate''"
  shows "[(state_col m, get r (state_col m)), (''Poverty_Rate'', get r ''Poverty_Rate'')]
           \<in> snd ` set (rate_df A m df) \<and>
         [(state_col m, get r' (state_col m)), (''Poverty_Rate'', get r' ''Poverty_Rate'')]
           \<in> snd ` set (rate_df A m df) \<and>
         [(state_col m, get r (state_col m)), (''Poverty_Rate'', get r ''Poverty_Rate'')] \<noteq>
         [(state_col m, get r' (state_col m)), (''Poverty_Rate'', get r' ''Poverty_Rate'')] \<and>
         distinct (map snd (rate_df A m df)) \<and>
         snd ` set (rate_df A m df) = snd ` set (dropna_any (select [state_col m, ''Poverty_Rate''] df))"
proof -
  have "(i, [(state_col m, get r (state_col m)), (''Poverty_Rate'', get r ''Poverty_Rate'')])
      \<in> set (dropna_any (select [state_col m, ''Poverty_Rate''] df))"
    unfolding in_rate_pairs using assms(2-) by (intro exI [of _ r]) simp
  then have 1: "[(state_col m, get r (state_col m)), (''Poverty_Rate'', get r ''Poverty_Rate'')]
      \<in> snd ` set (rate_df A m df)"
    unfolding rows_rate_df [OF assms(1)] by force
  have "(j, [(state_col m, get r' (state_col m)), (''Poverty_Rate'', get r' ''Poverty_Rate'')])
      \<in> set (dropna_any (select [state_col m, ''Poverty_Rate''] df))"
    unfolding in_rate_pairs using assms(2-) by (intro exI [of _ r']) simp
  then have 2: "[(state_col m, get r' (state_col m)), (''Poverty_Rate'', get r' ''Poverty_Rate'')]
      \<in> snd ` set (rate_df A m df)"
    unfolding rows_rate_df [OF assms(1)] by force
  from 1 2 assms(8) distinct_rate_df [OF assms(1), of m df] rows_rate_df [OF assms(1), of m df] show ?thesis
    by simp
qed

text \<open>
  Texas twice, with the rates 1/4 and 1/8.
\<close>

theorem same_state_two_rates_witness:
  "is_argsort stable_argsort \<and>
   (0, [(''State'', Str ''Texas''), (''Poverty_Rate'', Num (Fin (1 / 4)))])
     \<in> set [(0, [(''State'', Str ''Texas''), (''Poverty_Rate'', Num (Fin (1 / 4)))]),
             (1, [(''State'', Str ''Texas''), (''Poverty_Rate'', Num (Fin (1 / 8)))])] \<and>
   (1, [(''State'', Str ''Texas''), (''Poverty_Rate'', Num (Fin (1 / 8)))])
     \<in> set [(0, [(''State'', Str ''Texas''), (''Poverty_Rate'', Num (Fin (1 / 4)))]),
             (1, [(''State'', Str ''Texas''), (''Poverty_Rate'', Num (Fin (1 / 8)))])] \<and>
   [(''State'', Str ''Texas''), (''Poverty_Rate'', Num (Fin (1 / 4)))]
     \<in> snd ` set (rate_df stable_argsort default_mapping
         [(0, [(''State'', Str ''Texas''), (''Poverty_Rate'', Num (Fin (1 / 4)))]),
          (1, [(''State'', Str ''Texas''), (''Poverty_Rate'', Num (Fin (1 / 8)))])]) \<and>
   [(''State'', Str ''Texas''), (''Poverty_Rate'', Num (Fin (1 / 8)))]
     \<in> snd ` set (rate_df stable_argsort default_mapping
         [(0, [(''State'', Str ''Texas''), (''Poverty_Rate'', Num (Fin (1 / 4)))]),
          (1, [(''State'', Str ''Texas''), (''Poverty_Rate'', Num (Fin (1 / 8)))])])"
proof -
  let ?r = "[(''State'', Str ''Texas''), (''Poverty_Rate'', Num (Fin (1 / 4)))]"
  let ?r' = "[(''State'', Str ''Texas''), (''Poverty_Rate'', Num (Fin (1 / 8)))]"
  let ?df = "[(0, ?r), (1, ?r')]"
  have a: "(0, ?r) \<in> set ?df" and b: "(1, ?r') \<in> set ?df"
    by simp_all
  have c: "get ?r (state_col default_mapping) = get ?r' (state_col default_mapping)"
    and d: "get ?r (state_col default_mapping) \<noteq> NA"
    and e: "get ?r ''Poverty_Rate'' \<noteq> NA" and f: "get ?r' ''Poverty_Rate'' \<noteq> NA"
    and g: "get ?r ''Poverty_Rate'' \<noteq> get ?r' ''Poverty_Rate''"
    by (simp_all add: get_def default_mapping_def)
  have s: "state_col default_mapping = ''State''"
    by (simp add: default_mapping_def)
  have v: "get ?r ''State'' = Str ''Texas''" "get ?r' ''State'' = Str ''Texas''"
    "get ?r ''Poverty_Rate'' = Num (Fin (1 / 4))" "get ?r' ''Poverty_Rate'' = Num (Fin (1 / 8))"
    by (simp_all add: get_def)
  from same_state_two_rates [OF is_argsort_stable a b c d e f g] is_argsort_stable a b show ?thesis
    unfolding s v by blast
qed

section \<open>Comparison of selected states\<close>

text \<open>
  Adding a row to the entries keeps them in strictly ascending order of the key, and
  steps the two states of the row's key only.
\<close>

lemma keys_group_add: "fst ` set (group_add S T k p q gs) = insert k (fst ` set gs)"
  by (induction S T k p q gs rule: group_add.induct) auto

lemma sorted_group_add:
  "sorted_wrt (<) (map fst gs) \<Longrightarrow> sorted_wrt (<) (map fst (group_add S T k p q gs))"
proof (induction S T k p q gs rule: group_add.induct)
  case (1 S T k p q)
  show ?case by simp
next
  case (2 S T k p q k' a b gs)
  show ?case
  proof (cases "k = k'")
    case True
    with 2 show ?thesis by simp
  next
    case ne: False
    show ?thesis
    proof (cases "k < k'")
      case True
      with 2 ne show ?thesis by auto
    next
      case False
      with ne have lt: "k' < k" by simp
      from 2 ne False have "sorted_wrt (<) (map fst (group_add S T k p q gs))"
        by simp
      moreover have "\<forall>x \<in> set (map fst (group_add S T k p q gs)). k' < x"
        using 2(2) lt keys_group_add [of S T k p q gs] by auto
      ultimately show ?thesis
        using ne False by simp
    qed
  qed
qed



lemma group_states_snoc:
  "group_states S T (ts @ [(k, p, q)]) = group_add S T k p q (group_states S T ts)"
  by (simp add: group_states_def)

lemma sorted_group_states: "sorted_wrt (<) (map fst (group_states S T ts))"
proof (induction ts rule: rev_induct)
  case Nil
  show ?case by (simp add: group_states_def)
next
  case (snoc t ts)
  then show ?case
    by (cases t) (simp add: group_states_snoc sorted_group_add)
qed



lemma keys_group_sums: "map fst (group_sums S T ts) = map fst (group_states S T ts)"
  by (simp add: group_sums_def comp_def case_prod_unfold)

lemma sorted_group_sums: "sorted_wrt (<) (map fst (group_sums S T ts))"
  by (simp only: keys_group_sums sorted_group_states)




lemma grouped_rows:
  "grouped S T m sel df =
     group_sums S T (map (\<lambda>(i, r). (get r (state_col m), get r (poverty_col m), get r (millionaire_col m)))
       (filter (\<lambda>(i, r). get r (state_col m) \<noteq> NA \<and> get r (state_col m) \<in> set sel) df))"
  by (simp add: grouped_def groupby_sum_def isin_rows_def case_prod_unfold conj_commute)







lemma grouped_example:
  "grouped int64_sum int64_sum default_mapping [Str ''Texas'', Str ''Ohio'']
     (with_state_code default_mapping scenario_clean) =
     [(Str ''Ohio'', Num (Fin 128), Num (Fin 4)), (Str ''Texas'', Num (Fin 768), Num (Fin 384))]"
  by code_simp


text \<open>
  C9. The entries of \<open>grouped\<close> stand in strictly ascending order of the state, which
  for names is the order of texts by character code.
\<close>

theorem grouped_sorted:
  "sorted_wrt (<) (map fst (grouped S T m selected_states df)) \<and>
   (\<forall>s t. (Str s < Str t) = (s < t))"
  by (auto simp: grouped_rows sorted_group_sums less_cell_def)

text \<open>
  Ohio stands before Texas, whatever the order of the selection.
\<close>

theorem grouped_sorted_witness:
  "sorted_wrt (<) (map fst (grouped int64_sum int64_sum default_mapping [Str ''Texas'', Str ''Ohio'']
     (with_state_code default_mapping scenario_clean))) \<and>
   map fst (grouped int64_sum int64_sum default_mapping [Str ''Texas'', Str ''Ohio'']
     (with_state_code default_mapping scenario_clean)) = [Str ''Ohio'', Str ''Texas'']"
proof -
  from grouped_sorted [of int64_sum int64_sum default_mapping "[Str ''Texas'', Str ''Ohio'']"
      "with_state_code default_mapping scenario_clean"]
  have "sorted_wrt (<) (map fst (grouped int64_sum int64_sum default_mapping [Str ''Texas'', Str ''Ohio'']
     (with_state_code default_mapping scenario_clean)))"
    by (rule conjunct1)
  then show ?thesis
    by (simp add: grouped_example)
qed

end
